theory Spec2Isabelle
  imports Main
begin

section \<open>Data model of the orchestrator\<close>

text \<open>
  The orchestrator (\<^verbatim>\<open>class UXOrchestrator\<close>) works on plain JavaScript objects.
  A property that may be absent is an \<open>option\<close>: \<open>None\<close> is \<^verbatim>\<open>undefined\<close>.
  The analyzers of the repository fill every property the orchestrator reads with a string,
  so a present property is a \<open>string\<close>. Only the properties that the orchestrator reads are
  fields of the records below; \<open>i_fix\<close> is the property \<^verbatim>\<open>fix\<close>.
\<close>

record issue =
  category :: "string option"
  severity :: "string option"
  title :: "string option"
  description :: "string option"
  impact :: "string option"
  i_fix :: "string option"
  solution :: "string option"

record recommendation =
  rec_title :: "string option"
  effort :: "string option"
  rec_impact :: "string option"

text \<open>
  JavaScript numbers as the scoring code meets them: an integer (all counts and penalties
  are far below \<open>2^53\<close>, where the arithmetic of doubles is exact) or \<^verbatim>\<open>NaN\<close>.
\<close>

datatype jsnum = Num int | NaN

text \<open>
  The value that \<^verbatim>\<open>estimateFixTime\<close> accumulates: a number of minutes, or a string once
  \<^verbatim>\<open>+\<close> has concatenated the running total with a non-number (the text itself is
  not modelled).
\<close>

datatype total = Minutes nat | Concatenated

text \<open>One entry of \<^verbatim>\<open>summary.priorityActions\<close>: \<^verbatim>\<open>{title, description, action, impact}\<close>.\<close>

record priority_action =
  pa_title :: "string option"
  pa_description :: "string option"
  action :: "string option"
  pa_impact :: "string option"

record summary =
  totalIssues :: nat
  criticalIssues :: nat
  highIssues :: nat
  mediumIssues :: nat
  s_recommendations :: nat
  overallScore :: jsnum
  estimatedFixTime :: total
  priorityActions :: "priority_action list"
  quickWins :: nat

text \<open>A metric or score value: numeric or categorical.\<close>

datatype metric_value = MNum int | MStr string

text \<open>
  The object \<^verbatim>\<open>results\<close> that \<^verbatim>\<open>analyzePage\<close> creates and every later step mutates.
  \<open>summary = None\<close> is the empty object \<^verbatim>\<open>{}\<close> that \<^verbatim>\<open>analyzePage\<close> starts with; \<open>error = None\<close>
  is a result without the \<^verbatim>\<open>error\<close> property. The wall-clock properties (\<^verbatim>\<open>timestamp\<close>,
  \<^verbatim>\<open>analysisTime\<close>) are left out.
\<close>

record results =
  url :: string
  analysisType :: string
  issues :: "issue list"
  recommendations :: "recommendation list"
  screenshots :: "string list"
  metrics :: "string \<rightharpoonup> metric_value"
  scores :: "string \<rightharpoonup> metric_value"
  summary :: "summary option"
  error :: "string option"

section \<open>JavaScript operators used by the scoring code\<close>

text \<open>Truthiness of a possibly absent string: \<^verbatim>\<open>undefined\<close> and \<^verbatim>\<open>''\<close> are falsy.\<close>

fun truthy :: "string option \<Rightarrow> bool" where
  "truthy None = False"
| "truthy (Some s) = (s \<noteq> [])"

text \<open>\<^verbatim>\<open>a || b\<close> on two possibly absent strings.\<close>

definition or_else :: "string option \<Rightarrow> string option \<Rightarrow> string option" where
  "or_else a b = (if truthy a then a else b)"

text \<open>\<^verbatim>\<open>a || 'literal'\<close>: the result is always a string.\<close>

definition or_default :: "string option \<Rightarrow> string \<Rightarrow> string" where
  "or_default a d = (case a of None \<Rightarrow> d | Some s \<Rightarrow> if s \<noteq> [] then s else d)"

text \<open>
  \<^verbatim>\<open>undefined * 20\<close> is \<^verbatim>\<open>NaN\<close>: reading a count from a summary block that does not have it
  yields \<^verbatim>\<open>undefined\<close>, which \<^verbatim>\<open>*\<close> converts to \<^verbatim>\<open>NaN\<close>.
\<close>

definition to_number :: "nat option \<Rightarrow> jsnum" where
  "to_number v = (case v of None \<Rightarrow> NaN | Some n \<Rightarrow> Num (int n))"

fun js_times :: "jsnum \<Rightarrow> jsnum \<Rightarrow> jsnum" where
  "js_times (Num a) (Num b) = Num (a * b)"
| "js_times _ _ = NaN"

fun js_minus :: "jsnum \<Rightarrow> jsnum \<Rightarrow> jsnum" where
  "js_minus (Num a) (Num b) = Num (a - b)"
| "js_minus _ _ = NaN"

text \<open>\<^verbatim>\<open>Math.max\<close> returns \<^verbatim>\<open>NaN\<close> as soon as one argument is \<^verbatim>\<open>NaN\<close>.\<close>

fun js_max :: "jsnum \<Rightarrow> jsnum \<Rightarrow> jsnum" where
  "js_max (Num a) (Num b) = Num (max a b)"
| "js_max _ _ = NaN"

section \<open>Summary and scoring\<close>

text \<open>
  \<^verbatim>\<open>calculateOverallScore(results)\<close> reads the three counts from \<^verbatim>\<open>results.summary\<close>
  (\<^verbatim>\<open>results.summary?.criticalIssues * 20\<close> and so on).
\<close>

definition calculateOverallScore :: "results \<Rightarrow> jsnum" where
  "calculateOverallScore results =
     (let maxScore = Num 100;
          criticalPenalty = js_times (to_number (map_option criticalIssues (summary results))) (Num 20);
          highPenalty = js_times (to_number (map_option highIssues (summary results))) (Num 10);
          mediumPenalty = js_times (to_number (map_option mediumIssues (summary results))) (Num 5)
      in js_max (Num 0)
           (js_minus (js_minus (js_minus maxScore criticalPenalty) highPenalty) mediumPenalty))"

text \<open>
  The property names that every object literal inherits from \<^verbatim>\<open>Object.prototype\<close>:
  \<^verbatim>\<open>timeEstimates[name]\<close> finds a function or an object under them, not a number.
\<close>

definition object_prototype_names :: "string list" where
  "object_prototype_names =
     [''constructor'', ''__defineGetter__'', ''__defineSetter__'', ''hasOwnProperty'',
      ''__lookupGetter__'', ''__lookupSetter__'', ''isPrototypeOf'', ''propertyIsEnumerable'',
      ''toString'', ''valueOf'', ''__proto__'', ''toLocaleString'']"

datatype property = Own nat | Inherited | Absent

text \<open>The table \<^verbatim>\<open>timeEstimates\<close> of \<^verbatim>\<open>estimateFixTime\<close>, read by \<^verbatim>\<open>timeEstimates[severity]\<close>.\<close>

definition timeEstimates :: "string \<Rightarrow> property" where
  "timeEstimates k =
     (if k = ''critical'' then Own 120
      else if k = ''high'' then Own 60
      else if k = ''medium'' then Own 30
      else if k = ''low'' then Own 15
      else if k \<in> set object_prototype_names then Inherited
      else Absent)"

text \<open>
  The callback of \<^verbatim>\<open>issues.reduce\<close>: \<^verbatim>\<open>severity = issue.severity || issue.impact || 'medium'\<close>,
  then \<^verbatim>\<open>total + (timeEstimates[severity] || 30)\<close>. Every number of the table is non-zero,
  hence truthy; an inherited member is truthy too, and \<^verbatim>\<open>+\<close> then concatenates strings.
\<close>

definition add_estimate :: "total \<Rightarrow> issue \<Rightarrow> total" where
  "add_estimate t issue =
     (let sev = or_default (or_else (severity issue) (impact issue)) ''medium''
      in case t of
           Concatenated \<Rightarrow> Concatenated
         | Minutes m \<Rightarrow>
             (case timeEstimates sev of
                Own n \<Rightarrow> Minutes (m + n)
              | Absent \<Rightarrow> Minutes (m + 30)
              | Inherited \<Rightarrow> Concatenated))"

definition estimateFixTime :: "issue list \<Rightarrow> total" where
  "estimateFixTime iss = foldl add_estimate (Minutes 0) iss"

text \<open>The filter of \<^verbatim>\<open>getPriorityActions\<close>, and the object it maps each issue to.\<close>

definition is_priority :: "issue \<Rightarrow> bool" where
  "is_priority i \<longleftrightarrow> severity i = Some ''critical'' \<or> impact i = Some ''high''"

definition render_action :: "issue \<Rightarrow> priority_action" where
  "render_action i =
     \<lparr>pa_title = title i,
      pa_description = description i,
      action = or_else (i_fix i) (solution i),
      pa_impact = or_else (impact i) (severity i)\<rparr>"

definition getPriorityActions :: "issue list \<Rightarrow> priority_action list" where
  "getPriorityActions iss = map render_action (take 3 (filter is_priority iss))"

text \<open>
  \<^verbatim>\<open>calculateSummary(results)\<close> builds the new summary object and only then assigns it to
  \<^verbatim>\<open>results.summary\<close>: while the object literal is evaluated, \<^verbatim>\<open>calculateOverallScore(results)\<close>
  still sees the summary that \<open>results\<close> had before the call.
\<close>

definition calculateSummary :: "results \<Rightarrow> results" where
  "calculateSummary results =
     (let criticalIs = filter (\<lambda>i. severity i = Some ''critical'' \<or> impact i = Some ''high'') (issues results);
          highIs = filter (\<lambda>i. severity i = Some ''high'' \<or> impact i = Some ''medium'') (issues results);
          mediumIs = filter (\<lambda>i. severity i = Some ''medium'' \<or> impact i = Some ''low'') (issues results)
      in results\<lparr>summary := Some
           \<lparr>totalIssues = length (issues results),
            criticalIssues = length criticalIs,
            highIssues = length highIs,
            mediumIssues = length mediumIs,
            s_recommendations = length (recommendations results),
            overallScore = calculateOverallScore results,
            estimatedFixTime = estimateFixTime (issues results),
            priorityActions = getPriorityActions (issues results),
            quickWins = length (filter (\<lambda>r. effort r = Some ''low'' \<or> rec_impact r = Some ''quick'')
                                  (recommendations results))\<rparr>\<rparr>)"

section \<open>Analyzers and the browser as an environment\<close>

text \<open>
  What an analyzer entry point resolves to: \<^verbatim>\<open>{issues, recommendations, metrics, scores}\<close>,
  each property possibly absent (the element-scoped checks return no \<^verbatim>\<open>metrics\<close>, the quick
  checks no \<^verbatim>\<open>scores\<close>).
\<close>

record fragment =
  f_issues :: "issue list option"
  f_recommendations :: "recommendation list option"
  f_metrics :: "(string \<rightharpoonup> metric_value) option"
  f_scores :: "(string \<rightharpoonup> metric_value) option"

text \<open>
  How the promise of an analyzer call settles: fulfilled with a value (\<open>None\<close> is a falsy
  value such as \<^verbatim>\<open>undefined\<close>) or rejected with an error, kept as its \<^verbatim>\<open>message\<close>.
\<close>

datatype settled = Fulfilled "fragment option" | Rejected string

text \<open>
  The collaborators of one \<^verbatim>\<open>analyzePage\<close> call. Navigation, screenshots and analyzer calls
  may fail; their outcomes are the fields of the environment. \<open>None\<close> for a navigation means
  that it resolved, \<open>Some m\<close> that it rejected with message \<open>m\<close>; a screenshot gives its path
  (\<open>Inr\<close>) or the message of its error (\<open>Inl\<close>). The two \<open>settle_time\<close> fields give, for
  the promise at each index of a parallel batch, the instant at which it settles.
  Opening and closing pages and contexts are taken to succeed; they are recorded as events.
\<close>

record env =
  goto :: "string option"
  screenshot :: "string + string"
  quickScan :: settled
  quickCheck :: settled
  quickMetrics :: settled
  quick_settle_time :: "nat \<Rightarrow> nat"
  fullAudit :: settled
  comprehensiveAnalysis :: settled
  detailedMetrics :: settled
  responsivenessTest :: settled
  deep_settle_time :: "nat \<Rightarrow> nat"
  elementAnalysis :: settled
  elementCheck :: settled
  mobile_goto :: "string option"
  mobile_screenshot :: "string + string"
  fullMobileAudit :: settled

datatype event =
  NewPage | PageClose | NewMobileContext | NewMobilePage | MobilePageClose | MobileContextClose

text \<open>How a block of statements completes: normally, or by throwing an error (its message).\<close>

datatype completion = Normal | Throw string

text \<open>How a call completes: it returns a value or throws.\<close>

datatype 'a outcome = Returns 'a | Throws string

section \<open>Settling a parallel batch\<close>

text \<open>
  \<^verbatim>\<open>Promise.allSettled(promises)\<close> keeps one slot per promise. A promise fills the slot at
  its own index when it settles, so the slots are filled in the order of the settle times;
  the array of slots is handed over once all are filled.
\<close>

definition completion_order :: "(nat \<Rightarrow> nat) \<Rightarrow> nat \<Rightarrow> nat list" where
  "completion_order settle_time n = sort_key settle_time [0..<n]"

fun filled :: "'a option list \<Rightarrow> 'a list" where
  "filled [] = []"
| "filled (None # slots) = filled slots"
| "filled (Some x # slots) = x # filled slots"

definition allSettled :: "(nat \<Rightarrow> nat) \<Rightarrow> settled list \<Rightarrow> settled list" where
  "allSettled settle_time promises =
     filled (fold (\<lambda>i slots. slots[i := Some (promises ! i)])
                  (completion_order settle_time (length promises))
                  (replicate (length promises) None))"

section \<open>The tiers\<close>

text \<open>\<^verbatim>\<open>x || []\<close> and \<^verbatim>\<open>x || {}\<close> on a possibly absent array or object.\<close>

definition or_empty :: "'a list option \<Rightarrow> 'a list" where
  "or_empty x = (case x of None \<Rightarrow> [] | Some xs \<Rightarrow> xs)"

definition or_empty_object :: "('k \<rightharpoonup> 'v) option \<Rightarrow> ('k \<rightharpoonup> 'v)" where
  "or_empty_object x = (case x of None \<Rightarrow> Map.empty | Some m \<Rightarrow> m)"

text \<open>
  The body of the \<^verbatim>\<open>forEach\<close> of \<^verbatim>\<open>runQuickAnalysis\<close>; \<^verbatim>\<open>Object.assign(target, source)\<close> is
  \<open>target ++ source\<close>. There is no branch for a rejected result.
\<close>

definition merge_quick :: "results \<Rightarrow> settled \<Rightarrow> results" where
  "merge_quick results result =
     (case result of
        Fulfilled (Some v) \<Rightarrow>
          results\<lparr>issues := issues results @ or_empty (f_issues v),
                  recommendations := recommendations results @ or_empty (f_recommendations v),
                  metrics := metrics results ++ or_empty_object (f_metrics v)\<rparr>
      | _ \<Rightarrow> results)"

definition runQuickAnalysis :: "env \<Rightarrow> results \<Rightarrow> results" where
  "runQuickAnalysis e results =
     (let analysisPromises = [quickScan e, quickCheck e, quickMetrics e];
          analysisResults = allSettled (quick_settle_time e) analysisPromises
      in foldl merge_quick results analysisResults)"

text \<open>The body of the \<^verbatim>\<open>forEach\<close> of \<^verbatim>\<open>runDeepAnalysis\<close>, which also merges \<^verbatim>\<open>scores\<close>.\<close>

definition merge_deep :: "results \<Rightarrow> settled \<Rightarrow> results" where
  "merge_deep results result =
     (case result of
        Fulfilled (Some v) \<Rightarrow>
          results\<lparr>issues := issues results @ or_empty (f_issues v),
                  recommendations := recommendations results @ or_empty (f_recommendations v),
                  metrics := metrics results ++ or_empty_object (f_metrics v),
                  scores := scores results ++ or_empty_object (f_scores v)\<rparr>
      | _ \<Rightarrow> results)"

definition runDeepAnalysis :: "env \<Rightarrow> results \<Rightarrow> results" where
  "runDeepAnalysis e results =
     (let results1 = runQuickAnalysis e results;
          deepAnalysisPromises =
            [fullAudit e, comprehensiveAnalysis e, detailedMetrics e, responsivenessTest e];
          deepResults = allSettled (deep_settle_time e) deepAnalysisPromises
      in foldl merge_deep results1 deepResults)"

text \<open>
  \<^verbatim>\<open>...value.issues\<close> in an argument list: spreading throws a \<^verbatim>\<open>TypeError\<close> when \<^verbatim>\<open>value\<close> or
  the property is \<^verbatim>\<open>undefined\<close> (\<open>None\<close> here). The wording of the message is the engine's
  and is not modelled.
\<close>

definition spread :: "(fragment \<Rightarrow> 'a list option) \<Rightarrow> fragment option \<Rightarrow> 'a list option" where
  "spread prop v = (case v of None \<Rightarrow> None | Some f \<Rightarrow> prop f)"

definition type_error :: string where
  "type_error = ''TypeError''"

text \<open>
  \<^verbatim>\<open>runElementAnalysis\<close> awaits its two analyzers one after the other, outside any
  \<^verbatim>\<open>allSettled\<close>: a rejection is thrown. The arguments of each \<^verbatim>\<open>push\<close> are spread before
  anything is pushed.
\<close>

definition runElementAnalysis :: "env \<Rightarrow> results \<Rightarrow> completion \<times> results" where
  "runElementAnalysis e results =
     (case elementAnalysis e of
        Rejected m \<Rightarrow> (Throw m, results)
      | Fulfilled elementResults \<Rightarrow>
     (case elementCheck e of
        Rejected m \<Rightarrow> (Throw m, results)
      | Fulfilled accessibilityResults \<Rightarrow>
     (case (spread f_issues elementResults, spread f_issues accessibilityResults) of
        (Some xs, Some ys) \<Rightarrow>
          (let results1 = results\<lparr>issues := issues results @ xs @ ys\<rparr>
           in case (spread f_recommendations elementResults,
                    spread f_recommendations accessibilityResults) of
                (Some us, Some vs) \<Rightarrow>
                  (Normal, results1\<lparr>recommendations := recommendations results1 @ us @ vs\<rparr>)
              | _ \<Rightarrow> (Throw type_error, results1))
      | _ \<Rightarrow> (Throw type_error, results))))"

text \<open>
  \<^verbatim>\<open>runFullAnalysis\<close>: the deep tier, then a mobile context and page, navigation, a
  screenshot, the mobile audit, and the two \<^verbatim>\<open>close()\<close> calls as its last statements.
  The third component lists the events of the call.
\<close>

definition runFullAnalysis :: "env \<Rightarrow> results \<Rightarrow> completion \<times> results \<times> event list" where
  "runFullAnalysis e results =
     (let results1 = runDeepAnalysis e results;
          opened = [NewMobileContext, NewMobilePage]
      in case mobile_goto e of
           Some m \<Rightarrow> (Throw m, results1, opened)
         | None \<Rightarrow>
      (case mobile_screenshot e of
           Inl m \<Rightarrow> (Throw m, results1, opened)
         | Inr mobileScreenshot \<Rightarrow>
      (let results2 = results1\<lparr>screenshots := screenshots results1 @ [mobileScreenshot]\<rparr>
       in case fullMobileAudit e of
            Rejected m \<Rightarrow> (Throw m, results2, opened)
          | Fulfilled mobileResults \<Rightarrow>
      (case spread f_issues mobileResults of
            None \<Rightarrow> (Throw type_error, results2, opened)
          | Some xs \<Rightarrow>
      (let results3 = results2\<lparr>issues := issues results2 @ xs\<rparr>
       in case spread f_recommendations mobileResults of
            None \<Rightarrow> (Throw type_error, results3, opened)
          | Some us \<Rightarrow>
              (Normal, results3\<lparr>recommendations := recommendations results3 @ us\<rparr>,
               opened @ [MobilePageClose, MobileContextClose]))))))"

text \<open>
  The \<^verbatim>\<open>try\<close> block of \<^verbatim>\<open>analyzePage\<close>: navigation, screenshot, the \<^verbatim>\<open>switch\<close> over
  \<^verbatim>\<open>analysisType\<close> (four cases, no \<^verbatim>\<open>default\<close>), \<^verbatim>\<open>calculateSummary\<close>. It mutates
  \<open>results\<close> as it goes, so what was collected before a throw stays in \<open>results\<close>.
\<close>

definition try_block :: "env \<Rightarrow> string \<Rightarrow> results \<Rightarrow> completion \<times> results \<times> event list" where
  "try_block e atype results =
     (case goto e of
        Some m \<Rightarrow> (Throw m, results, [])
      | None \<Rightarrow>
     (case screenshot e of
        Inl m \<Rightarrow> (Throw m, results, [])
      | Inr screenshotPath \<Rightarrow>
     (let results1 = results\<lparr>screenshots := screenshots results @ [screenshotPath]\<rparr>;
          (c, results2, events) =
            (if atype = ''quick'' then (Normal, runQuickAnalysis e results1, [])
             else if atype = ''deep'' then (Normal, runDeepAnalysis e results1, [])
             else if atype = ''element'' then
               (case runElementAnalysis e results1 of (c, r) \<Rightarrow> (c, r, []))
             else if atype = ''full'' then runFullAnalysis e results1
             else (Normal, results1, []))
      in case c of
           Throw m \<Rightarrow> (Throw m, results2, events)
         | Normal \<Rightarrow> (Normal, calculateSummary results2, events))))"

text \<open>
  \<^verbatim>\<open>analyzePage(url, analysisType)\<close>: a new page, the fresh \<open>results\<close>, the \<^verbatim>\<open>try\<close> block;
  \<^verbatim>\<open>catch\<close> stores the message in \<^verbatim>\<open>results.error\<close> and returns \<open>results\<close>; \<^verbatim>\<open>finally\<close> closes
  the page. The second component lists the events of the call.
\<close>

definition analyzePage :: "env \<Rightarrow> string \<Rightarrow> string \<Rightarrow> results outcome \<times> event list" where
  "analyzePage e u atype =
     (let results = \<lparr>url = u, analysisType = atype, issues = [], recommendations = [],
                     screenshots = [], metrics = Map.empty, scores = Map.empty,
                     summary = None, error = None\<rparr>;
          (c, results1, events) = try_block e atype results;
          returned = (case c of
                        Normal \<Rightarrow> Returns results1
                      | Throw m \<Rightarrow> Returns (results1\<lparr>error := Some m\<rparr>))
      in (returned, [NewPage] @ events @ [PageClose]))"

section \<open>Notions used to state the properties\<close>

text \<open>
  What one settled promise adds to the result in a batch merge: the arrays and objects of a
  fulfilled fragment, nothing for a rejected promise or a falsy value.
\<close>

definition contributed_issues :: "settled \<Rightarrow> issue list" where
  "contributed_issues s = (case s of Fulfilled (Some f) \<Rightarrow> or_empty (f_issues f) | _ \<Rightarrow> [])"

definition contributed_recommendations :: "settled \<Rightarrow> recommendation list" where
  "contributed_recommendations s =
     (case s of Fulfilled (Some f) \<Rightarrow> or_empty (f_recommendations f) | _ \<Rightarrow> [])"

definition contributed_metrics :: "settled \<Rightarrow> (string \<rightharpoonup> metric_value)" where
  "contributed_metrics s =
     (case s of Fulfilled (Some f) \<Rightarrow> or_empty_object (f_metrics f) | _ \<Rightarrow> Map.empty)"

definition contributed_scores :: "settled \<Rightarrow> (string \<rightharpoonup> metric_value)" where
  "contributed_scores s =
     (case s of Fulfilled (Some f) \<Rightarrow> or_empty_object (f_scores f) | _ \<Rightarrow> Map.empty)"

text \<open>
  Last write wins: among the objects of a list, taken in order, the value of a key is the
  one of the last object that has the key.
\<close>

fun last_writer :: "('k \<rightharpoonup> 'v) list \<Rightarrow> 'k \<Rightarrow> 'v option" where
  "last_writer [] k = None"
| "last_writer (m # ms) k = (case last_writer ms k of Some v \<Rightarrow> Some v | None \<Rightarrow> m k)"

text \<open>
  The severity under which an issue is costed: its \<^verbatim>\<open>severity\<close> when present and not empty,
  else its \<^verbatim>\<open>impact\<close> when present and not empty, else \<^verbatim>\<open>medium\<close>; and the cost table with
  its default of 30 minutes.
\<close>

definition impact_or_medium :: "issue \<Rightarrow> string" where
  "impact_or_medium i =
     (case impact i of None \<Rightarrow> ''medium'' | Some t \<Rightarrow> if t = [] then ''medium'' else t)"

definition effective_severity :: "issue \<Rightarrow> string" where
  "effective_severity i =
     (case severity i of None \<Rightarrow> impact_or_medium i
      | Some s \<Rightarrow> if s = [] then impact_or_medium i else s)"

definition severity_cost :: "string \<Rightarrow> nat" where
  "severity_cost s =
     (if s = ''critical'' then 120 else if s = ''high'' then 60
      else if s = ''low'' then 15 else 30)"

text \<open>The value a call returned, if it returned.\<close>

definition returned_value :: "'a outcome \<Rightarrow> 'a option" where
  "returned_value c = (case c of Returns v \<Rightarrow> Some v | Throws m \<Rightarrow> None)"

section \<open>Example inputs\<close>

definition mk_issue :: "string \<Rightarrow> string option \<Rightarrow> string option \<Rightarrow> issue" where
  "mk_issue t sev imp =
     \<lparr>category = None, severity = sev, title = Some t, description = None,
      impact = imp, i_fix = None, solution = None\<rparr>"

definition mk_fragment :: "issue list \<Rightarrow> (string \<rightharpoonup> metric_value) \<Rightarrow> fragment" where
  "mk_fragment iss ms =
     \<lparr>f_issues = Some iss, f_recommendations = Some [], f_metrics = Some ms, f_scores = None\<rparr>"

text \<open>A result as \<^verbatim>\<open>analyzePage\<close> creates it, with the given issues merged in.\<close>

definition fresh_result :: "issue list \<Rightarrow> results" where
  "fresh_result iss =
     \<lparr>url = ''http://localhost:3000'', analysisType = ''quick'', issues = iss,
      recommendations = [], screenshots = [], metrics = Map.empty, scores = Map.empty,
      summary = None, error = None\<rparr>"

text \<open>Four issues with severities critical, high, medium, medium and no \<^verbatim>\<open>impact\<close>.\<close>

definition example_issues :: "issue list" where
  "example_issues =
     [mk_issue ''a'' (Some ''critical'') None, mk_issue ''b'' (Some ''high'') None,
      mk_issue ''c'' (Some ''medium'') None, mk_issue ''d'' (Some ''medium'') None]"

text \<open>Six issues with the severity and impact that the analyzers give them.\<close>

definition demo_issues :: "issue list" where
  "demo_issues =
     [mk_issue ''Missing Form Labels'' (Some ''critical'') (Some ''high''),
      mk_issue ''Large DOM Size'' (Some ''medium'') (Some ''medium''),
      mk_issue ''Slow Page Load'' (Some ''high'') (Some ''high''),
      mk_issue ''Console Warnings'' (Some ''low'') (Some ''low''),
      mk_issue ''JavaScript Errors'' (Some ''critical'') (Some ''high''),
      mk_issue ''Broken Images'' (Some ''high'') (Some ''high'')]"

text \<open>
  An environment in which everything succeeds; the quick promises settle in the reverse of
  their registration order.
\<close>

definition demo_env :: env where
  "demo_env =
     \<lparr>goto = None, screenshot = Inr ''screenshots/shot.png'',
      quickScan = Fulfilled (Some (mk_fragment
        [mk_issue ''JavaScript Errors'' (Some ''critical'') (Some ''high'')] Map.empty)),
      quickCheck = Fulfilled (Some (mk_fragment
        [mk_issue ''Images Missing Alt Text'' (Some ''high'') (Some ''high'')]
        [''totalImages'' \<mapsto> MNum 7])),
      quickMetrics = Fulfilled (Some (mk_fragment []
        [''totalImages'' \<mapsto> MNum 9, ''domSize'' \<mapsto> MNum 840])),
      quick_settle_time = (\<lambda>i. 3 - i),
      fullAudit = Fulfilled (Some (mk_fragment [] Map.empty)),
      comprehensiveAnalysis = Fulfilled (Some (mk_fragment [] Map.empty)),
      detailedMetrics = Fulfilled (Some (mk_fragment [] Map.empty)),
      responsivenessTest = Fulfilled (Some (mk_fragment [] Map.empty)),
      deep_settle_time = (\<lambda>i. i),
      elementAnalysis = Fulfilled (Some (mk_fragment [] Map.empty)),
      elementCheck = Fulfilled (Some (mk_fragment [] Map.empty)),
      mobile_goto = None, mobile_screenshot = Inr ''screenshots/shot-mobile.png'',
      fullMobileAudit = Fulfilled (Some (mk_fragment [] Map.empty))\<rparr>"

text \<open>The same environment with one rejecting analyzer in each parallel batch.\<close>

definition failing_env :: env where
  "failing_env =
     demo_env\<lparr>quickScan := Rejected ''Target page has been closed'',
               detailedMetrics := Rejected ''Execution context was destroyed''\<rparr>"

section \<open>Auxiliary lemmas\<close>

subsection \<open>Lists\<close>

lemma nth_filter_decomp:
  "k < length (filter P xs) \<Longrightarrow>
   \<exists>pre x post. xs = pre @ x # post \<and> P x \<and> length (filter P pre) = k \<and> filter P xs ! k = x"
proof (induction xs arbitrary: k)
  case Nil
  then show ?case by simp
next
  case (Cons a xs)
  show ?case
  proof (cases "P a")
    case False
    with Cons.prems have "k < length (filter P xs)" by simp
    from Cons.IH[OF this] obtain pre x post where
      h: "xs = pre @ x # post" "P x" "length (filter P pre) = k" "filter P xs ! k = x" by blast
    have "a # xs = (a # pre) @ x # post" using h(1) by simp
    moreover have "length (filter P (a # pre)) = k" using h(3) False by simp
    moreover have "filter P (a # xs) ! k = x" using h(4) False by simp
    ultimately show ?thesis using h(2) by blast
  next
    case True
    show ?thesis
    proof (cases k)
      case 0
      have "a # xs = [] @ a # xs" by simp
      moreover have "length (filter P []) = k" using 0 by simp
      moreover have "filter P (a # xs) ! k = a" using 0 True by simp
      ultimately show ?thesis using True by blast
    next
      case (Suc j)
      with Cons.prems True have "j < length (filter P xs)" by simp
      from Cons.IH[OF this] obtain pre x post where
        h: "xs = pre @ x # post" "P x" "length (filter P pre) = j" "filter P xs ! j = x" by blast
      have "a # xs = (a # pre) @ x # post" using h(1) by simp
      moreover have "length (filter P (a # pre)) = k" using h(3) True Suc by simp
      moreover have "filter P (a # xs) ! k = x" using h(4) True Suc by simp
      ultimately show ?thesis using h(2) by blast
    qed
  qed
qed

subsection \<open>Fix-time estimate\<close>

lemma or_chain_effective_severity:
  "or_default (or_else (severity i) (impact i)) ''medium'' = effective_severity i"
  by (cases "severity i"; cases "impact i")
     (auto simp: or_default_def or_else_def effective_severity_def impact_or_medium_def)

lemma add_estimate_cost:
  "effective_severity i \<notin> set object_prototype_names \<Longrightarrow>
   add_estimate (Minutes m) i = Minutes (m + severity_cost (effective_severity i))"
  unfolding add_estimate_def or_chain_effective_severity
  by (simp add: Let_def timeEstimates_def severity_cost_def)

lemma foldl_add_estimate:
  "\<forall>i \<in> set iss. effective_severity i \<notin> set object_prototype_names \<Longrightarrow>
   foldl add_estimate (Minutes m) iss =
     Minutes (m + sum_list (map (\<lambda>i. severity_cost (effective_severity i)) iss))"
  by (induction iss arbitrary: m) (simp_all add: add_estimate_cost add.assoc)

lemma example_fix_time: "estimateFixTime example_issues = Minutes 240"
  by (simp add: estimateFixTime_def add_estimate_def example_issues_def mk_issue_def
      or_else_def or_default_def timeEstimates_def)

subsection \<open>Severity counts\<close>

lemma severity_partition_without_impact:
  "\<forall>i \<in> set xs. impact i = None \<Longrightarrow>
   length (filter (\<lambda>i. severity i = Some ''critical'' \<or> impact i = Some ''high'') xs)
   + length (filter (\<lambda>i. severity i = Some ''high'' \<or> impact i = Some ''medium'') xs)
   + length (filter (\<lambda>i. severity i = Some ''medium'' \<or> impact i = Some ''low'') xs)
   + length (filter (\<lambda>i. severity i \<noteq> Some ''critical'' \<and> severity i \<noteq> Some ''high''
                          \<and> severity i \<noteq> Some ''medium'') xs)
   = length xs"
  by (induction xs) auto

subsection \<open>Settling and merging a batch\<close>

lemma length_fill_slots:
  "length (fold (\<lambda>i slots. slots[i := Some (ps ! i)]) order slots) = length slots"
  by (induction order arbitrary: slots) simp_all

lemma nth_fill_slots:
  "j < length slots \<Longrightarrow>
   fold (\<lambda>i slots. slots[i := Some (ps ! i)]) order slots ! j =
     (if j \<in> set order then Some (ps ! j) else slots ! j)"
proof (induction order arbitrary: slots)
  case Nil
  then show ?case by simp
next
  case (Cons a order)
  have "j < length (slots[a := Some (ps ! a)])" using Cons.prems by simp
  from Cons.IH[OF this] show ?case
    using Cons.prems by (auto simp: nth_list_update)
qed

lemma filled_map_Some: "filled (map Some xs) = xs"
  by (induction xs) simp_all

text \<open>Whatever the settle times, the settled array is in the order of the promises.\<close>

lemma allSettled_registration_order: "allSettled settle_time ps = ps"
proof -
  let ?n = "length ps"
  let ?slots = "fold (\<lambda>i slots. slots[i := Some (ps ! i)])
                  (completion_order settle_time ?n) (replicate ?n None)"
  have "?slots = map Some ps"
  proof (rule nth_equalityI)
    show "length ?slots = length (map Some ps)" by (simp add: length_fill_slots)
  next
    fix j assume "j < length ?slots"
    then have j: "j < ?n" by (simp add: length_fill_slots)
    then have "j \<in> set (completion_order settle_time ?n)"
      by (simp add: completion_order_def)
    with j show "?slots ! j = map Some ps ! j"
      by (simp add: nth_fill_slots)
  qed
  then show ?thesis by (simp add: allSettled_def filled_map_Some)
qed

lemma merge_quick_fields:
  "issues (merge_quick r s) = issues r @ contributed_issues s"
  "recommendations (merge_quick r s) = recommendations r @ contributed_recommendations s"
  "metrics (merge_quick r s) = metrics r ++ contributed_metrics s"
  "scores (merge_quick r s) = scores r"
  "summary (merge_quick r s) = summary r"
  by (simp_all add: merge_quick_def contributed_issues_def contributed_recommendations_def
      contributed_metrics_def split: settled.splits option.splits)

lemma merge_deep_fields:
  "issues (merge_deep r s) = issues r @ contributed_issues s"
  "recommendations (merge_deep r s) = recommendations r @ contributed_recommendations s"
  "metrics (merge_deep r s) = metrics r ++ contributed_metrics s"
  "scores (merge_deep r s) = scores r ++ contributed_scores s"
  "summary (merge_deep r s) = summary r"
  by (simp_all add: merge_deep_def contributed_issues_def contributed_recommendations_def
      contributed_metrics_def contributed_scores_def split: settled.splits option.splits)

lemma runQuickAnalysis_merges:
  "runQuickAnalysis e r =
     merge_quick (merge_quick (merge_quick r (quickScan e)) (quickCheck e)) (quickMetrics e)"
  by (simp add: runQuickAnalysis_def allSettled_registration_order Let_def)

lemma runDeepAnalysis_merges:
  "runDeepAnalysis e r =
     merge_deep (merge_deep (merge_deep (merge_deep (runQuickAnalysis e r) (fullAudit e))
       (comprehensiveAnalysis e)) (detailedMetrics e)) (responsivenessTest e)"
  by (simp add: runDeepAnalysis_def allSettled_registration_order Let_def)

lemma foldl_merge_quick_fields:
  "issues (foldl merge_quick r ps) = issues r @ concat (map contributed_issues ps)"
  "recommendations (foldl merge_quick r ps) =
     recommendations r @ concat (map contributed_recommendations ps)"
  by (induction ps arbitrary: r) (simp_all add: merge_quick_fields)

lemma foldl_merge_deep_fields:
  "issues (foldl merge_deep r ps) = issues r @ concat (map contributed_issues ps)"
  "recommendations (foldl merge_deep r ps) =
     recommendations r @ concat (map contributed_recommendations ps)"
  by (induction ps arbitrary: r) (simp_all add: merge_deep_fields)

lemma dom_foldl_merge_quick:
  "dom (metrics (foldl merge_quick r ps)) =
     dom (metrics r) \<union> (\<Union>s\<in>set ps. dom (contributed_metrics s))"
  by (induction ps arbitrary: r) (auto simp: merge_quick_fields)

lemma dom_foldl_merge_deep:
  "dom (metrics (foldl merge_deep r ps)) =
     dom (metrics r) \<union> (\<Union>s\<in>set ps. dom (contributed_metrics s))"
  by (induction ps arbitrary: r) (auto simp: merge_deep_fields)

text \<open>With a rejected promise taken out of a batch, the contributions are those of the rest.\<close>

lemma contributions_without_rejected:
  assumes "pre @ post = map (\<lambda>f. Fulfilled (Some f)) fs"
  shows "concat (map contributed_issues (pre @ Rejected m # post)) =
           concat (map (\<lambda>f. or_empty (f_issues f)) fs)"
    and "concat (map contributed_recommendations (pre @ Rejected m # post)) =
           concat (map (\<lambda>f. or_empty (f_recommendations f)) fs)"
proof -
  have "concat (map contributed_issues (pre @ Rejected m # post)) =
        concat (map contributed_issues (pre @ post))"
    by (simp add: contributed_issues_def)
  also have "\<dots> = concat (map (\<lambda>f. or_empty (f_issues f)) fs)"
    unfolding assms by (simp add: contributed_issues_def comp_def)
  finally show "concat (map contributed_issues (pre @ Rejected m # post)) =
           concat (map (\<lambda>f. or_empty (f_issues f)) fs)" .
  have "concat (map contributed_recommendations (pre @ Rejected m # post)) =
        concat (map contributed_recommendations (pre @ post))"
    by (simp add: contributed_recommendations_def)
  also have "\<dots> = concat (map (\<lambda>f. or_empty (f_recommendations f)) fs)"
    unfolding assms by (simp add: contributed_recommendations_def comp_def)
  finally show "concat (map contributed_recommendations (pre @ Rejected m # post)) =
           concat (map (\<lambda>f. or_empty (f_recommendations f)) fs)" .
qed

lemma fulfilled_metrics_in_batch:
  assumes "pre @ post = map (\<lambda>f. Fulfilled (Some f)) fs" and "f \<in> set fs"
  shows "dom (or_empty_object (f_metrics f)) \<subseteq>
           (\<Union>s\<in>set (pre @ Rejected m # post). dom (contributed_metrics s))"
proof -
  from assms have "Fulfilled (Some f) \<in> set (pre @ post)" by simp
  then have "Fulfilled (Some f) \<in> set (pre @ Rejected m # post)" by auto
  moreover have "contributed_metrics (Fulfilled (Some f)) = or_empty_object (f_metrics f)"
    by (simp add: contributed_metrics_def)
  ultimately show ?thesis by force
qed

subsection \<open>Fields stored by the summary\<close>

lemma calculateSummary_stored:
  "\<exists>s. summary (calculateSummary r) = Some s \<and>
       priorityActions s = getPriorityActions (issues r) \<and>
       estimatedFixTime s = estimateFixTime (issues r)"
  by (simp add: calculateSummary_def Let_def)

lemma getPriorityActions_first_three:
  "length (getPriorityActions iss) \<le> 3 \<and>
   length (getPriorityActions iss) = min 3 (length (filter is_priority iss)) \<and>
   (\<forall>k < length (getPriorityActions iss).
      \<exists>pre x post. iss = pre @ x # post \<and>
        (severity x = Some ''critical'' \<or> impact x = Some ''high'') \<and>
        length (filter is_priority pre) = k \<and>
        getPriorityActions iss ! k =
          \<lparr>pa_title = title x, pa_description = description x,
           action = or_else (i_fix x) (solution x),
           pa_impact = or_else (impact x) (severity x)\<rparr>)"
proof (intro conjI allI impI)
  show "length (getPriorityActions iss) \<le> 3"
    by (simp add: getPriorityActions_def)
  show "length (getPriorityActions iss) = min 3 (length (filter is_priority iss))"
    by (simp add: getPriorityActions_def min.commute)
next
  fix k
  assume k: "k < length (getPriorityActions iss)"
  then have k3: "k < 3" and kf: "k < length (filter is_priority iss)"
    by (simp_all add: getPriorityActions_def)
  from nth_filter_decomp[OF kf] obtain pre x post where
    h: "iss = pre @ x # post" "is_priority x" "length (filter is_priority pre) = k"
       "filter is_priority iss ! k = x" by blast
  have "getPriorityActions iss ! k = render_action x"
    using k3 kf h(4) by (simp add: getPriorityActions_def)
  then show "\<exists>pre x post. iss = pre @ x # post \<and>
        (severity x = Some ''critical'' \<or> impact x = Some ''high'') \<and>
        length (filter is_priority pre) = k \<and>
        getPriorityActions iss ! k =
          \<lparr>pa_title = title x, pa_description = description x,
           action = or_else (i_fix x) (solution x),
           pa_impact = or_else (impact x) (severity x)\<rparr>"
    using h(1,2,3) unfolding render_action_def is_priority_def by blast
qed

lemma estimateFixTime_sum:
  assumes "\<forall>i \<in> set iss. effective_severity i \<notin> set object_prototype_names"
  shows "estimateFixTime iss = Minutes (\<Sum>i\<leftarrow>iss. severity_cost (effective_severity i))"
proof -
  have "estimateFixTime iss = foldl add_estimate (Minutes 0) iss"
    by (simp add: estimateFixTime_def)
  also have "\<dots> = Minutes (0 + (\<Sum>i\<leftarrow>iss. severity_cost (effective_severity i)))"
    using assms by (rule foldl_add_estimate)
  finally show ?thesis by simp
qed

subsection \<open>Events of a call\<close>

lemma runFullAnalysis_events:
  "runFullAnalysis e r = (c, r', evs) \<Longrightarrow> PageClose \<notin> set evs \<and> NewPage \<notin> set evs"
  by (auto simp: runFullAnalysis_def Let_def split: option.splits sum.splits settled.splits)

lemma try_block_events:
  "try_block e t r = (c, r', evs) \<Longrightarrow> PageClose \<notin> set evs \<and> NewPage \<notin> set evs"
  by (auto simp: try_block_def Let_def split: option.splits sum.splits prod.splits if_splits
      completion.splits dest: runFullAnalysis_events)

section \<open>Claims\<close>

subsection \<open>C1: a rejected analyzer in a parallel batch\<close>

text \<open>
  Claim C1 says that a rejecting analyzer of a parallel batch shows up in the result as one
  synthetic issue of category \<^verbatim>\<open>system\<close> and severity \<^verbatim>\<open>medium\<close>. The merge loops have no
  branch for a rejected result: with \<^verbatim>\<open>quickScan\<close> rejecting, \<^verbatim>\<open>quickCheck\<close> fulfilling with one
  issue and \<^verbatim>\<open>quickMetrics\<close> with none, the quick tier ends with that one issue only, and the
  summary counts one issue.
\<close>

theorem rejected_analyzer_counterexample:
  "issues (runQuickAnalysis (demo_env\<lparr>quickScan := Rejected ''Target page has been closed''\<rparr>)
             (fresh_result []))
     = [mk_issue ''Images Missing Alt Text'' (Some ''high'') (Some ''high'')] \<and>
   map_option totalIssues
     (summary (calculateSummary
        (runQuickAnalysis (demo_env\<lparr>quickScan := Rejected ''Target page has been closed''\<rparr>)
           (fresh_result []))))
     = Some 1"
  by (simp add: runQuickAnalysis_merges merge_quick_fields calculateSummary_def Let_def
      contributed_issues_def demo_env_def mk_fragment_def or_empty_def fresh_result_def)

text \<open>
  Claim C1, amended: if one analyzer of the quick batch or of the deep batch rejects while
  the others fulfil with fragments, the result holds the issues and the recommendations of
  the fulfilled fragments, in registration order, after what it held before, and nothing
  else: no issue is added for the rejected analyzer, so the number of issues grows by the
  number of issues of the fulfilled fragments. Every metric key of a fulfilled fragment is a
  key of the merged metrics.
\<close>

theorem rejected_analyzer_adds_nothing:
  "([quickScan e, quickCheck e, quickMetrics e] = pre @ Rejected m # post \<and>
    pre @ post = map (\<lambda>f. Fulfilled (Some f)) fs \<longrightarrow>
      issues (runQuickAnalysis e r) = issues r @ concat (map (\<lambda>f. or_empty (f_issues f)) fs) \<and>
      recommendations (runQuickAnalysis e r) =
        recommendations r @ concat (map (\<lambda>f. or_empty (f_recommendations f)) fs) \<and>
      length (issues (runQuickAnalysis e r)) =
        length (issues r) + (\<Sum>f\<leftarrow>fs. length (or_empty (f_issues f))) \<and>
      (\<forall>f \<in> set fs. dom (or_empty_object (f_metrics f)) \<subseteq> dom (metrics (runQuickAnalysis e r)))) \<and>
   ([fullAudit e, comprehensiveAnalysis e, detailedMetrics e, responsivenessTest e]
      = pre' @ Rejected m' # post' \<and>
    pre' @ post' = map (\<lambda>f. Fulfilled (Some f)) fs' \<longrightarrow>
      issues (runDeepAnalysis e r) =
        issues (runQuickAnalysis e r) @ concat (map (\<lambda>f. or_empty (f_issues f)) fs') \<and>
      recommendations (runDeepAnalysis e r) =
        recommendations (runQuickAnalysis e r)
          @ concat (map (\<lambda>f. or_empty (f_recommendations f)) fs') \<and>
      length (issues (runDeepAnalysis e r)) =
        length (issues (runQuickAnalysis e r)) + (\<Sum>f\<leftarrow>fs'. length (or_empty (f_issues f))) \<and>
      (\<forall>f \<in> set fs'. dom (or_empty_object (f_metrics f)) \<subseteq> dom (metrics (runDeepAnalysis e r))))"
proof (intro conjI impI; elim conjE)
  assume ps: "[quickScan e, quickCheck e, quickMetrics e] = pre @ Rejected m # post"
    and fs: "pre @ post = map (\<lambda>f. Fulfilled (Some f)) fs"
  have run: "runQuickAnalysis e r = foldl merge_quick r (pre @ Rejected m # post)"
    by (simp add: runQuickAnalysis_def allSettled_registration_order Let_def ps)
  show i: "issues (runQuickAnalysis e r) = issues r @ concat (map (\<lambda>f. or_empty (f_issues f)) fs)"
    unfolding run foldl_merge_quick_fields contributions_without_rejected[OF fs] ..
  show "recommendations (runQuickAnalysis e r) =
        recommendations r @ concat (map (\<lambda>f. or_empty (f_recommendations f)) fs)"
    unfolding run foldl_merge_quick_fields contributions_without_rejected[OF fs] ..
  show "length (issues (runQuickAnalysis e r)) =
        length (issues r) + (\<Sum>f\<leftarrow>fs. length (or_empty (f_issues f)))"
    unfolding i by (simp add: length_concat comp_def)
  show "\<forall>f \<in> set fs. dom (or_empty_object (f_metrics f)) \<subseteq> dom (metrics (runQuickAnalysis e r))"
    unfolding run dom_foldl_merge_quick using fulfilled_metrics_in_batch[OF fs] by blast
next
  assume ps: "[fullAudit e, comprehensiveAnalysis e, detailedMetrics e, responsivenessTest e]
      = pre' @ Rejected m' # post'"
    and fs: "pre' @ post' = map (\<lambda>f. Fulfilled (Some f)) fs'"
  have run: "runDeepAnalysis e r =
      foldl merge_deep (runQuickAnalysis e r) (pre' @ Rejected m' # post')"
    by (simp add: runDeepAnalysis_def allSettled_registration_order Let_def ps)
  show i: "issues (runDeepAnalysis e r) =
        issues (runQuickAnalysis e r) @ concat (map (\<lambda>f. or_empty (f_issues f)) fs')"
    unfolding run foldl_merge_deep_fields contributions_without_rejected[OF fs] ..
  show "recommendations (runDeepAnalysis e r) =
        recommendations (runQuickAnalysis e r)
          @ concat (map (\<lambda>f. or_empty (f_recommendations f)) fs')"
    unfolding run foldl_merge_deep_fields contributions_without_rejected[OF fs] ..
  show "length (issues (runDeepAnalysis e r)) =
        length (issues (runQuickAnalysis e r)) + (\<Sum>f\<leftarrow>fs'. length (or_empty (f_issues f)))"
    unfolding i by (simp add: length_concat comp_def)
  show "\<forall>f \<in> set fs'. dom (or_empty_object (f_metrics f)) \<subseteq> dom (metrics (runDeepAnalysis e r))"
    unfolding run dom_foldl_merge_deep using fulfilled_metrics_in_batch[OF fs] by blast
qed

theorem rejected_analyzer_adds_nothing_witness:
  "[quickScan failing_env, quickCheck failing_env, quickMetrics failing_env] =
     [] @ Rejected ''Target page has been closed'' #
     [Fulfilled (Some (mk_fragment
        [mk_issue ''Images Missing Alt Text'' (Some ''high'') (Some ''high'')]
        [''totalImages'' \<mapsto> MNum 7])),
      Fulfilled (Some (mk_fragment [] [''totalImages'' \<mapsto> MNum 9, ''domSize'' \<mapsto> MNum 840]))] \<and>
   issues (runQuickAnalysis failing_env (fresh_result [])) =
     [mk_issue ''Images Missing Alt Text'' (Some ''high'') (Some ''high'')] \<and>
   [fullAudit failing_env, comprehensiveAnalysis failing_env, detailedMetrics failing_env,
    responsivenessTest failing_env] =
     [Fulfilled (Some (mk_fragment [] Map.empty)), Fulfilled (Some (mk_fragment [] Map.empty))]
     @ Rejected ''Execution context was destroyed'' # [Fulfilled (Some (mk_fragment [] Map.empty))] \<and>
   issues (runDeepAnalysis failing_env (fresh_result [])) =
     [mk_issue ''Images Missing Alt Text'' (Some ''high'') (Some ''high'')]"
proof -
  let ?f1 = "mk_fragment [mk_issue ''Images Missing Alt Text'' (Some ''high'') (Some ''high'')]
               [''totalImages'' \<mapsto> MNum 7]"
  let ?f2 = "mk_fragment [] [''totalImages'' \<mapsto> MNum 9, ''domSize'' \<mapsto> MNum 840]"
  let ?f0 = "mk_fragment [] Map.empty"
  have q: "[quickScan failing_env, quickCheck failing_env, quickMetrics failing_env] =
     [] @ Rejected ''Target page has been closed'' # [Fulfilled (Some ?f1), Fulfilled (Some ?f2)]"
    by (simp add: failing_env_def demo_env_def)
  have qf: "[] @ [Fulfilled (Some ?f1), Fulfilled (Some ?f2)] =
      map (\<lambda>f. Fulfilled (Some f)) [?f1, ?f2]" by simp
  have d: "[fullAudit failing_env, comprehensiveAnalysis failing_env, detailedMetrics failing_env,
      responsivenessTest failing_env] =
     [Fulfilled (Some ?f0), Fulfilled (Some ?f0)]
     @ Rejected ''Execution context was destroyed'' # [Fulfilled (Some ?f0)]"
    by (simp add: failing_env_def demo_env_def)
  have df: "[Fulfilled (Some ?f0), Fulfilled (Some ?f0)] @ [Fulfilled (Some ?f0)] =
      map (\<lambda>f. Fulfilled (Some f)) [?f0, ?f0, ?f0]" by simp
  note inst = rejected_analyzer_adds_nothing[of failing_env "[]" "''Target page has been closed''"
      "[Fulfilled (Some ?f1), Fulfilled (Some ?f2)]" "[?f1, ?f2]" "fresh_result []"
      "[Fulfilled (Some ?f0), Fulfilled (Some ?f0)]" "''Execution context was destroyed''"
      "[Fulfilled (Some ?f0)]" "[?f0, ?f0, ?f0]"]
  from inst q qf have qi: "issues (runQuickAnalysis failing_env (fresh_result [])) =
      issues (fresh_result []) @ concat (map (\<lambda>f. or_empty (f_issues f)) [?f1, ?f2])"
    by blast
  from inst d df have di: "issues (runDeepAnalysis failing_env (fresh_result [])) =
      issues (runQuickAnalysis failing_env (fresh_result []))
        @ concat (map (\<lambda>f. or_empty (f_issues f)) [?f0, ?f0, ?f0])"
    by blast
  have qv: "issues (runQuickAnalysis failing_env (fresh_result [])) =
      [mk_issue ''Images Missing Alt Text'' (Some ''high'') (Some ''high'')]"
    unfolding qi by (simp add: fresh_result_def mk_fragment_def or_empty_def)
  have dv: "issues (runDeepAnalysis failing_env (fresh_result [])) =
      [mk_issue ''Images Missing Alt Text'' (Some ''high'') (Some ''high'')]"
    unfolding di qv by (simp add: mk_fragment_def or_empty_def)
  from q qv d dv show ?thesis by blast
qed

subsection \<open>C2: the overall score\<close>

text \<open>
  Claim C2 says that the overall score of a merged result is
  \<open>max(0, 100 - 20 critical - 10 high - 5 medium)\<close> and that the four example issues
  (critical, high, medium, medium) yield 50. On the example the summary has the counts 1, 1
  and 2, for which the formula gives \<open>100 - 20 - 10 - 10 = 60\<close>: that is what
  \<^verbatim>\<open>calculateOverallScore\<close> returns on the finalized example. The score stored by the first
  \<^verbatim>\<open>calculateSummary\<close> is \<^verbatim>\<open>NaN\<close> (see C3).
\<close>

theorem overall_score_counterexample:
  "map_option overallScore (summary (calculateSummary (fresh_result example_issues))) = Some NaN \<and>
   calculateOverallScore (calculateSummary (fresh_result example_issues)) = Num 60"
  by (simp add: calculateSummary_def calculateOverallScore_def fresh_result_def example_issues_def
      mk_issue_def to_number_def Let_def)

text \<open>
  Claim C2, amended: for every result whose summary block holds the three counts,
  \<^verbatim>\<open>calculateOverallScore\<close> returns
  \<open>max(0, 100 - 20 criticalIssues - 10 highIssues - 5 mediumIssues)\<close> of these counts, an
  integer between 0 and 100; for the counts of the example (1, 1, 2) this is 60.
\<close>

theorem overall_score_formula:
  assumes "summary r = Some s"
  shows "calculateOverallScore r =
           Num (max 0 (100 - 20 * int (criticalIssues s) - 10 * int (highIssues s)
                        - 5 * int (mediumIssues s))) \<and>
         (\<exists>n. calculateOverallScore r = Num n \<and> 0 \<le> n \<and> n \<le> 100)"
  using assms by (simp add: calculateOverallScore_def to_number_def Let_def)

theorem overall_score_formula_witness:
  "summary (calculateSummary (fresh_result example_issues)) =
     Some \<lparr>totalIssues = 4, criticalIssues = 1, highIssues = 1, mediumIssues = 2,
           s_recommendations = 0, overallScore = NaN, estimatedFixTime = Minutes 240,
           priorityActions = getPriorityActions example_issues, quickWins = 0\<rparr> \<and>
   calculateOverallScore (calculateSummary (fresh_result example_issues)) = Num 60"
proof -
  have h: "summary (calculateSummary (fresh_result example_issues)) =
     Some \<lparr>totalIssues = 4, criticalIssues = 1, highIssues = 1, mediumIssues = 2,
           s_recommendations = 0, overallScore = NaN, estimatedFixTime = Minutes 240,
           priorityActions = getPriorityActions example_issues, quickWins = 0\<rparr>"
    unfolding example_fix_time[symmetric]
    by (simp add: calculateSummary_def calculateOverallScore_def fresh_result_def to_number_def
        Let_def)
       (simp add: example_issues_def mk_issue_def)
  from overall_score_formula[OF h] show ?thesis using h by simp
qed

subsection \<open>C3: finalizing twice\<close>

text \<open>
  Claim C3 says that \<^verbatim>\<open>calculateSummary\<close> is idempotent and computes every summary field from
  the issue and recommendation lists alone. \<^verbatim>\<open>calculateSummary\<close> calls
  \<^verbatim>\<open>calculateOverallScore(results)\<close> while it builds the new summary object, before assigning
  it, so the score is computed from the counts of the summary stored by the previous call.
  On a fresh result without issues the first call stores \<^verbatim>\<open>NaN\<close> and the second 100, so the
  two summary blocks differ; and a result finalized with the example issues, then emptied of
  its issues and finalized again, gets the score 60 of the issues it no longer has.
\<close>

theorem finalize_twice_differs:
  "map_option overallScore (summary (calculateSummary (fresh_result []))) = Some NaN \<and>
   map_option overallScore (summary (calculateSummary (calculateSummary (fresh_result []))))
     = Some (Num 100) \<and>
   summary (calculateSummary (calculateSummary (fresh_result [])))
     \<noteq> summary (calculateSummary (fresh_result [])) \<and>
   map_option overallScore
     (summary (calculateSummary ((calculateSummary (fresh_result example_issues))\<lparr>issues := []\<rparr>)))
     = Some (Num 60)"
  by (simp add: calculateSummary_def calculateOverallScore_def fresh_result_def to_number_def
      Let_def example_issues_def mk_issue_def)

subsection \<open>C4: severity counts\<close>

text \<open>
  Claim C4 says that the severity counts partition the issues, each issue being counted once
  under its severity. The three filters of \<^verbatim>\<open>calculateSummary\<close> overlap, and there is no count
  for low: the issue \<^verbatim>\<open>Slow Page Load\<close> of the performance analyzer, with severity \<^verbatim>\<open>high\<close> and
  impact \<^verbatim>\<open>high\<close>, is counted as critical and as high, so one issue gives counts that add up
  to two.
\<close>

theorem severity_counts_counterexample:
  "map_option criticalIssues
     (summary (calculateSummary
        (fresh_result [mk_issue ''Slow Page Load'' (Some ''high'') (Some ''high'')]))) = Some 1 \<and>
   map_option highIssues
     (summary (calculateSummary
        (fresh_result [mk_issue ''Slow Page Load'' (Some ''high'') (Some ''high'')]))) = Some 1 \<and>
   map_option mediumIssues
     (summary (calculateSummary
        (fresh_result [mk_issue ''Slow Page Load'' (Some ''high'') (Some ''high'')]))) = Some 0 \<and>
   map_option totalIssues
     (summary (calculateSummary
        (fresh_result [mk_issue ''Slow Page Load'' (Some ''high'') (Some ''high'')]))) = Some 1"
  by (simp add: calculateSummary_def fresh_result_def mk_issue_def Let_def)

text \<open>
  Claim C4, amended: the summary has three severity counts and the total.
  \<^verbatim>\<open>criticalIssues\<close> counts the issues with severity \<^verbatim>\<open>critical\<close> or impact \<^verbatim>\<open>high\<close>,
  \<^verbatim>\<open>highIssues\<close> those with severity \<^verbatim>\<open>high\<close> or impact \<^verbatim>\<open>medium\<close>, \<^verbatim>\<open>mediumIssues\<close> those with
  severity \<^verbatim>\<open>medium\<close> or impact \<^verbatim>\<open>low\<close>, and \<^verbatim>\<open>totalIssues\<close> all issues. When no issue has an
  impact, the bucket is chosen by the severity alone and each issue is counted at most once:
  the three counts and the number of issues whose severity is none of critical, high and
  medium add up to the total.
\<close>

theorem severity_counts:
  "\<exists>s. summary (calculateSummary r) = Some s \<and>
     totalIssues s = length (issues r) \<and>
     criticalIssues s =
       length (filter (\<lambda>i. severity i = Some ''critical'' \<or> impact i = Some ''high'') (issues r)) \<and>
     highIssues s =
       length (filter (\<lambda>i. severity i = Some ''high'' \<or> impact i = Some ''medium'') (issues r)) \<and>
     mediumIssues s =
       length (filter (\<lambda>i. severity i = Some ''medium'' \<or> impact i = Some ''low'') (issues r)) \<and>
     ((\<forall>i \<in> set (issues r). impact i = None) \<longrightarrow>
        criticalIssues s + highIssues s + mediumIssues s
        + length (filter (\<lambda>i. severity i \<noteq> Some ''critical'' \<and> severity i \<noteq> Some ''high''
                               \<and> severity i \<noteq> Some ''medium'') (issues r))
        = totalIssues s)"
  using severity_partition_without_impact[of "issues r"]
  by (simp add: calculateSummary_def Let_def)

theorem severity_counts_witness:
  "map impact (issues (fresh_result example_issues)) = [None, None, None, None] \<and>
   (\<exists>s. summary (calculateSummary (fresh_result example_issues)) = Some s \<and>
        criticalIssues s + highIssues s + mediumIssues s + 0 = totalIssues s \<and>
        totalIssues s = 4)"
proof -
  let ?r = "fresh_result example_issues"
  have m: "map impact (issues ?r) = [None, None, None, None]"
    by (simp add: fresh_result_def example_issues_def mk_issue_def)
  have h: "\<forall>i \<in> set (issues ?r). impact i = None"
    by (simp add: fresh_result_def example_issues_def mk_issue_def)
  have z: "length (filter (\<lambda>i. severity i \<noteq> Some ''critical'' \<and> severity i \<noteq> Some ''high''
                               \<and> severity i \<noteq> Some ''medium'') (issues ?r)) = 0"
    by (simp add: fresh_result_def example_issues_def mk_issue_def)
  have n: "length (issues ?r) = 4"
    by (simp add: fresh_result_def example_issues_def)
  from severity_counts[of ?r] h obtain s where
    "summary (calculateSummary ?r) = Some s"
    "totalIssues s = length (issues ?r)"
    "criticalIssues s + highIssues s + mediumIssues s
       + length (filter (\<lambda>i. severity i \<noteq> Some ''critical'' \<and> severity i \<noteq> Some ''high''
                               \<and> severity i \<noteq> Some ''medium'') (issues ?r))
       = totalIssues s"
    by blast
  with z n have "summary (calculateSummary ?r) = Some s \<and>
        criticalIssues s + highIssues s + mediumIssues s + 0 = totalIssues s \<and>
        totalIssues s = 4" by simp
  with m show ?thesis by blast
qed

subsection \<open>C5: navigation failure\<close>

text \<open>
  Claim C5: for every url and tier, if the navigation of the page fails, \<^verbatim>\<open>analyzePage\<close> does
  not throw; it returns the result with the message of the failure in \<^verbatim>\<open>error\<close> and with
  no issues (nothing had been collected). On every path, failing or not, the call returns,
  and the page opened at its start is closed, once, as its last event.
\<close>

theorem navigation_failure_recorded:
  "(goto e = Some m \<longrightarrow>
      analyzePage e u t =
        (Returns \<lparr>url = u, analysisType = t, issues = [], recommendations = [], screenshots = [],
                  metrics = Map.empty, scores = Map.empty, summary = None, error = Some m\<rparr>,
         [NewPage, PageClose])) \<and>
   (\<exists>r evs. analyzePage e u t = (Returns r, [NewPage] @ evs @ [PageClose]) \<and>
             PageClose \<notin> set evs \<and> NewPage \<notin> set evs)"
proof (intro conjI impI)
  assume "goto e = Some m"
  then show "analyzePage e u t =
        (Returns \<lparr>url = u, analysisType = t, issues = [], recommendations = [], screenshots = [],
                  metrics = Map.empty, scores = Map.empty, summary = None, error = Some m\<rparr>,
         [NewPage, PageClose])"
    by (simp add: analyzePage_def try_block_def)
next
  let ?r0 = "\<lparr>url = u, analysisType = t, issues = [], recommendations = [], screenshots = [],
              metrics = Map.empty, scores = Map.empty, summary = None, error = None\<rparr>"
  obtain c r1 evs where tb: "try_block e t ?r0 = (c, r1, evs)"
    by (cases "try_block e t ?r0") auto
  from try_block_events[OF tb] have ev: "PageClose \<notin> set evs \<and> NewPage \<notin> set evs" .
  show "\<exists>r evs. analyzePage e u t = (Returns r, [NewPage] @ evs @ [PageClose]) \<and>
             PageClose \<notin> set evs \<and> NewPage \<notin> set evs"
  proof (cases c)
    case Normal
    with tb have "analyzePage e u t = (Returns r1, [NewPage] @ evs @ [PageClose])"
      by (simp add: analyzePage_def)
    with ev show ?thesis by blast
  next
    case (Throw m')
    with tb have "analyzePage e u t =
        (Returns (r1\<lparr>error := Some m'\<rparr>), [NewPage] @ evs @ [PageClose])"
      by (simp add: analyzePage_def)
    with ev show ?thesis by blast
  qed
qed

theorem navigation_failure_recorded_witness:
  "goto (demo_env\<lparr>goto := Some ''Timeout 30000ms exceeded''\<rparr>) = Some ''Timeout 30000ms exceeded'' \<and>
   analyzePage (demo_env\<lparr>goto := Some ''Timeout 30000ms exceeded''\<rparr>)
       ''http://localhost:3000'' ''quick'' =
     (Returns \<lparr>url = ''http://localhost:3000'', analysisType = ''quick'', issues = [],
               recommendations = [], screenshots = [], metrics = Map.empty, scores = Map.empty,
               summary = None, error = Some ''Timeout 30000ms exceeded''\<rparr>,
      [NewPage, PageClose])"
proof -
  have h: "goto (demo_env\<lparr>goto := Some ''Timeout 30000ms exceeded''\<rparr>)
             = Some ''Timeout 30000ms exceeded''"
    by simp
  from navigation_failure_recorded[of "demo_env\<lparr>goto := Some ''Timeout 30000ms exceeded''\<rparr>"
      "''Timeout 30000ms exceeded''" "''http://localhost:3000''" "''quick''"] h
  show ?thesis by blast
qed

subsection \<open>C6: merging a batch\<close>

text \<open>
  Claim C6 says that in every tier and batch the fulfilled fragments are merged in
  registration order, issues and recommendations by concatenation, metrics and scores last
  write wins. The loop of \<^verbatim>\<open>runQuickAnalysis\<close> does not merge \<^verbatim>\<open>scores\<close>: when \<^verbatim>\<open>quickMetrics\<close>
  fulfils with a fragment that carries the score \<^verbatim>\<open>performanceScore\<close>, the result of the quick
  tier has no such score.
\<close>

theorem quick_scores_counterexample:
  "scores (runQuickAnalysis
     (demo_env\<lparr>quickMetrics := Fulfilled (Some \<lparr>f_issues = Some [], f_recommendations = Some [],
         f_metrics = Some Map.empty, f_scores = Some [''performanceScore'' \<mapsto> MNum 90]\<rparr>)\<rparr>)
     (fresh_result [])) ''performanceScore'' = None"
  by (simp add: runQuickAnalysis_merges merge_quick_fields fresh_result_def)

text \<open>
  Claim C6, amended: in the quick batch and in the deep batch the fulfilled fragments are
  merged in registration order, whatever the times at which the promises settle. Issues and
  recommendations are appended, all of them, in that order; for each metric key the value of
  the last analyzer in registration order that has the key wins over the earlier ones and
  over what the result held. Scores are merged in the same way in the deep batch only; the
  quick batch leaves the scores of the result as they are.
\<close>

theorem batch_merge_order:
  "issues (runQuickAnalysis e r) =
     issues r @ contributed_issues (quickScan e) @ contributed_issues (quickCheck e)
       @ contributed_issues (quickMetrics e) \<and>
   recommendations (runQuickAnalysis e r) =
     recommendations r @ contributed_recommendations (quickScan e)
       @ contributed_recommendations (quickCheck e) @ contributed_recommendations (quickMetrics e) \<and>
   metrics (runQuickAnalysis e r) k =
     last_writer [metrics r, contributed_metrics (quickScan e), contributed_metrics (quickCheck e),
                  contributed_metrics (quickMetrics e)] k \<and>
   scores (runQuickAnalysis e r) = scores r \<and>
   issues (runDeepAnalysis e r) =
     issues (runQuickAnalysis e r) @ contributed_issues (fullAudit e)
       @ contributed_issues (comprehensiveAnalysis e) @ contributed_issues (detailedMetrics e)
       @ contributed_issues (responsivenessTest e) \<and>
   recommendations (runDeepAnalysis e r) =
     recommendations (runQuickAnalysis e r) @ contributed_recommendations (fullAudit e)
       @ contributed_recommendations (comprehensiveAnalysis e)
       @ contributed_recommendations (detailedMetrics e)
       @ contributed_recommendations (responsivenessTest e) \<and>
   metrics (runDeepAnalysis e r) k =
     last_writer [metrics (runQuickAnalysis e r), contributed_metrics (fullAudit e),
                  contributed_metrics (comprehensiveAnalysis e),
                  contributed_metrics (detailedMetrics e),
                  contributed_metrics (responsivenessTest e)] k \<and>
   scores (runDeepAnalysis e r) k =
     last_writer [scores r, contributed_scores (fullAudit e),
                  contributed_scores (comprehensiveAnalysis e),
                  contributed_scores (detailedMetrics e),
                  contributed_scores (responsivenessTest e)] k \<and>
   runQuickAnalysis (e\<lparr>quick_settle_time := t\<rparr>) r = runQuickAnalysis e r \<and>
   runDeepAnalysis (e\<lparr>quick_settle_time := t, deep_settle_time := t'\<rparr>) r = runDeepAnalysis e r"
proof (intro conjI)
  show "runQuickAnalysis (e\<lparr>quick_settle_time := t\<rparr>) r = runQuickAnalysis e r"
    by (simp add: runQuickAnalysis_merges)
  show "runDeepAnalysis (e\<lparr>quick_settle_time := t, deep_settle_time := t'\<rparr>) r
          = runDeepAnalysis e r"
    by (simp add: runDeepAnalysis_merges runQuickAnalysis_merges)
qed (simp_all add: runQuickAnalysis_merges runDeepAnalysis_merges merge_quick_fields
      merge_deep_fields map_add_def split: option.splits)

theorem batch_merge_order_witness:
  "issues (runQuickAnalysis demo_env (fresh_result [])) =
     [mk_issue ''JavaScript Errors'' (Some ''critical'') (Some ''high''),
      mk_issue ''Images Missing Alt Text'' (Some ''high'') (Some ''high'')] \<and>
   metrics (runQuickAnalysis demo_env (fresh_result [])) ''totalImages'' = Some (MNum 9)"
  using batch_merge_order[of demo_env "fresh_result []" "''totalImages''"]
  by (simp add: contributed_issues_def contributed_metrics_def demo_env_def mk_fragment_def
      or_empty_def or_empty_object_def fresh_result_def)

subsection \<open>C7: the mobile context of the full tier\<close>

text \<open>
  Claim C7 says that the mobile page and the mobile context of the full tier are closed on
  every path of \<^verbatim>\<open>runFullAnalysis\<close>, also when the mobile navigation, the mobile screenshot or
  the mobile audit throws. The two \<^verbatim>\<open>close()\<close> calls are the last statements of the function
  and are not in a \<^verbatim>\<open>finally\<close> block: when any of the three throws, \<^verbatim>\<open>analyzePage\<close> records the
  error and closes its own page, and the mobile page and context stay open.
\<close>

theorem mobile_context_leak:
  "snd (analyzePage (demo_env\<lparr>mobile_goto := Some ''net::ERR_CONNECTION_REFUSED''\<rparr>)
          ''http://localhost:3000'' ''full'')
     = [NewPage, NewMobileContext, NewMobilePage, PageClose] \<and>
   map_option error (returned_value
     (fst (analyzePage (demo_env\<lparr>mobile_goto := Some ''net::ERR_CONNECTION_REFUSED''\<rparr>)
          ''http://localhost:3000'' ''full'')))
     = Some (Some ''net::ERR_CONNECTION_REFUSED'') \<and>
   snd (analyzePage (demo_env\<lparr>mobile_screenshot := Inl ''Timeout 10000ms exceeded''\<rparr>)
          ''http://localhost:3000'' ''full'')
     = [NewPage, NewMobileContext, NewMobilePage, PageClose] \<and>
   snd (analyzePage (demo_env\<lparr>fullMobileAudit := Rejected ''Execution context was destroyed''\<rparr>)
          ''http://localhost:3000'' ''full'')
     = [NewPage, NewMobileContext, NewMobilePage, PageClose] \<and>
   snd (analyzePage demo_env ''http://localhost:3000'' ''full'')
     = [NewPage, NewMobileContext, NewMobilePage, MobilePageClose, MobileContextClose, PageClose]"
  by (simp add: analyzePage_def try_block_def runFullAnalysis_def Let_def demo_env_def
      returned_value_def spread_def mk_fragment_def)

subsection \<open>C8: priority actions\<close>

text \<open>
  Claim C8: for every merged result, the \<^verbatim>\<open>priorityActions\<close> of the summary that
  \<^verbatim>\<open>calculateSummary\<close> stores has at most three entries (three, or all qualifying issues when
  there are fewer). Entry \<open>k\<close> is made from an issue of the result whose severity is
  \<^verbatim>\<open>critical\<close> or whose impact is \<^verbatim>\<open>high\<close> and that has exactly \<open>k\<close> such issues before it in
  the issue list: the entries are the first such issues, in insertion order. The entry takes
  \<^verbatim>\<open>title\<close> and \<^verbatim>\<open>description\<close> from the issue, \<^verbatim>\<open>action\<close> from its \<^verbatim>\<open>fix\<close> or else its
  \<^verbatim>\<open>solution\<close>, and \<^verbatim>\<open>impact\<close> from its \<^verbatim>\<open>impact\<close> or else its \<^verbatim>\<open>severity\<close>.
\<close>

theorem priority_actions_first_three:
  "\<exists>s. summary (calculateSummary r) = Some s \<and>
     length (priorityActions s) \<le> 3 \<and>
     length (priorityActions s) = min 3 (length (filter is_priority (issues r))) \<and>
     (\<forall>k < length (priorityActions s).
        \<exists>pre x post. issues r = pre @ x # post \<and>
          (severity x = Some ''critical'' \<or> impact x = Some ''high'') \<and>
          length (filter is_priority pre) = k \<and>
          priorityActions s ! k =
            \<lparr>pa_title = title x, pa_description = description x,
             action = or_else (i_fix x) (solution x),
             pa_impact = or_else (impact x) (severity x)\<rparr>)"
proof -
  from calculateSummary_stored[of r] obtain s where
    s: "summary (calculateSummary r) = Some s"
    and pa: "priorityActions s = getPriorityActions (issues r)" by blast
  from getPriorityActions_first_three[of "issues r"] s show ?thesis
    unfolding pa[symmetric] by blast
qed

theorem priority_actions_first_three_witness:
  "\<exists>s. summary (calculateSummary (fresh_result demo_issues)) = Some s \<and>
     length (priorityActions s) = 3 \<and>
     (\<exists>pre x post. issues (fresh_result demo_issues) = pre @ x # post \<and>
          (severity x = Some ''critical'' \<or> impact x = Some ''high'') \<and>
          length (filter is_priority pre) = 2 \<and>
          priorityActions s ! 2 =
            \<lparr>pa_title = title x, pa_description = description x,
             action = or_else (i_fix x) (solution x),
             pa_impact = or_else (impact x) (severity x)\<rparr>) \<and>
     priorityActions s ! 2 =
       \<lparr>pa_title = Some ''JavaScript Errors'', pa_description = None, action = None,
        pa_impact = Some ''high''\<rparr>"
proof -
  let ?r = "fresh_result demo_issues"
  from priority_actions_first_three[of ?r] obtain s where
    s: "summary (calculateSummary ?r) = Some s"
    and n: "length (priorityActions s) = min 3 (length (filter is_priority (issues ?r)))"
    and a: "\<forall>k < length (priorityActions s).
        \<exists>pre x post. issues ?r = pre @ x # post \<and>
          (severity x = Some ''critical'' \<or> impact x = Some ''high'') \<and>
          length (filter is_priority pre) = k \<and>
          priorityActions s ! k =
            \<lparr>pa_title = title x, pa_description = description x,
             action = or_else (i_fix x) (solution x),
             pa_impact = or_else (impact x) (severity x)\<rparr>"
    by blast
  have len: "length (priorityActions s) = 3"
    unfolding n by (simp add: fresh_result_def demo_issues_def mk_issue_def is_priority_def)
  have "priorityActions s = priorityActions (the (summary (calculateSummary ?r)))"
    using s by simp
  then have v: "priorityActions s ! 2 =
       \<lparr>pa_title = Some ''JavaScript Errors'', pa_description = None, action = None,
        pa_impact = Some ''high''\<rparr>"
    by (simp add: calculateSummary_def Let_def fresh_result_def getPriorityActions_def
        demo_issues_def mk_issue_def is_priority_def render_action_def or_else_def)
  from a len have "\<exists>pre x post. issues ?r = pre @ x # post \<and>
          (severity x = Some ''critical'' \<or> impact x = Some ''high'') \<and>
          length (filter is_priority pre) = 2 \<and>
          priorityActions s ! 2 =
            \<lparr>pa_title = title x, pa_description = description x,
             action = or_else (i_fix x) (solution x),
             pa_impact = or_else (impact x) (severity x)\<rparr>"
    by simp
  with s len v show ?thesis by blast
qed

subsection \<open>C9: estimated fix time\<close>

text \<open>
  Claim C9 says that in the summary of a merged result an issue without a severity costs the
  30 minutes of \<^verbatim>\<open>medium\<close>. \<^verbatim>\<open>estimateFixTime\<close>, whose result \<^verbatim>\<open>calculateSummary\<close> stores as
  \<^verbatim>\<open>estimatedFixTime\<close>, takes \<^verbatim>\<open>issue.severity || issue.impact || 'medium'\<close>: for a result with
  one issue without severity and with impact \<^verbatim>\<open>high\<close> the summary has 60 minutes.
\<close>

theorem fix_time_counterexample:
  "map_option estimatedFixTime
     (summary (calculateSummary
        (fresh_result [mk_issue ''Unlabelled finding'' None (Some ''high'')])))
     = Some (Minutes 60)"
  by (simp add: calculateSummary_def Let_def fresh_result_def estimateFixTime_def
      add_estimate_def mk_issue_def or_else_def or_default_def timeEstimates_def)

text \<open>
  Claim C9, amended: for every merged result, the \<^verbatim>\<open>estimatedFixTime\<close> of the summary that
  \<^verbatim>\<open>calculateSummary\<close> stores is the sum over all issues of the result of a cost in minutes,
  120 for critical, 60 for high, 30 for medium, 15 for low and 30 for any other value; the
  value costed is the severity of the issue when present and not empty, otherwise its impact
  when present and not empty, otherwise medium. No issues give 0. (Stated for values that
  are not names of members inherited from \<^verbatim>\<open>Object.prototype\<close>.)
\<close>

theorem fix_time_sum:
  "\<exists>s. summary (calculateSummary r) = Some s \<and>
     (issues r = [] \<longrightarrow> estimatedFixTime s = Minutes 0) \<and>
     ((\<forall>i \<in> set (issues r). effective_severity i \<notin> set object_prototype_names) \<longrightarrow>
        estimatedFixTime s = Minutes (\<Sum>i\<leftarrow>issues r. severity_cost (effective_severity i)))"
proof -
  from calculateSummary_stored[of r] obtain s where
    s: "summary (calculateSummary r) = Some s"
    and e: "estimatedFixTime s = estimateFixTime (issues r)" by blast
  have "issues r = [] \<longrightarrow> estimatedFixTime s = Minutes 0"
    unfolding e by (simp add: estimateFixTime_def)
  moreover have "(\<forall>i \<in> set (issues r). effective_severity i \<notin> set object_prototype_names) \<longrightarrow>
        estimatedFixTime s = Minutes (\<Sum>i\<leftarrow>issues r. severity_cost (effective_severity i))"
    unfolding e using estimateFixTime_sum[of "issues r"] by blast
  ultimately show ?thesis using s by blast
qed

theorem fix_time_sum_witness:
  "issues (fresh_result []) = [] \<and>
   map_option estimatedFixTime (summary (calculateSummary (fresh_result []))) = Some (Minutes 0) \<and>
   map effective_severity
     (issues (fresh_result
        (demo_issues @ [mk_issue ''Unlabelled finding'' None (Some ''high''),
                        mk_issue ''Odd severity'' (Some ''blocker'') (Some ''high'')])))
     = [''critical'', ''medium'', ''high'', ''low'', ''critical'', ''high'', ''high'', ''blocker''] \<and>
   map_option estimatedFixTime
     (summary (calculateSummary (fresh_result
        (demo_issues @ [mk_issue ''Unlabelled finding'' None (Some ''high''),
                        mk_issue ''Odd severity'' (Some ''blocker'') (Some ''high'')]))))
     = Some (Minutes 495)"
proof -
  let ?iss = "demo_issues @ [mk_issue ''Unlabelled finding'' None (Some ''high''),
                             mk_issue ''Odd severity'' (Some ''blocker'') (Some ''high'')]"
  have i0: "issues (fresh_result []) = []"
    by (simp add: fresh_result_def)
  from fix_time_sum[of "fresh_result []"] i0
  have z: "map_option estimatedFixTime (summary (calculateSummary (fresh_result [])))
             = Some (Minutes 0)"
    by auto
  have i: "issues (fresh_result ?iss) = ?iss"
    by (simp add: fresh_result_def)
  have m: "map effective_severity ?iss =
      [''critical'', ''medium'', ''high'', ''low'', ''critical'', ''high'', ''high'', ''blocker'']"
    by (simp add: demo_issues_def mk_issue_def effective_severity_def impact_or_medium_def)
  have h: "\<forall>i \<in> set ?iss. effective_severity i \<notin> set object_prototype_names"
    by (simp add: demo_issues_def mk_issue_def effective_severity_def impact_or_medium_def
        object_prototype_names_def)
  have c: "(\<Sum>i\<leftarrow>?iss. severity_cost (effective_severity i)) = 495"
    by (simp add: demo_issues_def mk_issue_def effective_severity_def impact_or_medium_def
        severity_cost_def)
  from fix_time_sum[of "fresh_result ?iss"] h
  have v: "map_option estimatedFixTime (summary (calculateSummary (fresh_result ?iss)))
             = Some (Minutes 495)"
    unfolding i c by auto
  from i0 z m v show ?thesis unfolding i by blast
qed

subsection \<open>C10: an unknown analysis type\<close>

text \<open>
  Claim C10 says that for every analysis type other than the four of the \<^verbatim>\<open>switch\<close>,
  \<^verbatim>\<open>analyzePage\<close> sets no error and returns a summary computed over empty lists. The
  navigation comes before the \<^verbatim>\<open>switch\<close>: when it fails, the error is set and the summary is
  left empty, whatever the analysis type.
\<close>

theorem unknown_tier_counterexample:
  "fst (analyzePage (demo_env\<lparr>goto := Some ''Timeout 30000ms exceeded''\<rparr>)
          ''http://localhost:3000'' ''monitor'')
     = Returns \<lparr>url = ''http://localhost:3000'', analysisType = ''monitor'', issues = [],
               recommendations = [], screenshots = [], metrics = Map.empty, scores = Map.empty,
               summary = None, error = Some ''Timeout 30000ms exceeded''\<rparr>"
  by (simp add: analyzePage_def try_block_def demo_env_def)

text \<open>
  Claim C10, amended: when the navigation and the screenshot succeed, then for every
  analysis type other than \<^verbatim>\<open>quick\<close>, \<^verbatim>\<open>deep\<close>, \<^verbatim>\<open>element\<close> and \<^verbatim>\<open>full\<close>, \<^verbatim>\<open>analyzePage\<close> returns
  without an error; no analyzer has run (the only events are the opening and the closing of
  the page), issues, recommendations, metrics and scores are empty, and the summary is the
  one of empty lists: all counts 0, fix time 0, no priority action.
\<close>

theorem unknown_tier_runs_nothing:
  assumes "goto e = None" and "screenshot e = Inr p"
    and "t \<noteq> ''quick''" and "t \<noteq> ''deep''" and "t \<noteq> ''element''" and "t \<noteq> ''full''"
  shows "\<exists>r s. analyzePage e u t = (Returns r, [NewPage, PageClose]) \<and>
           error r = None \<and> issues r = [] \<and> recommendations r = [] \<and>
           metrics r = Map.empty \<and> scores r = Map.empty \<and> screenshots r = [p] \<and>
           summary r = Some s \<and>
           totalIssues s = 0 \<and> criticalIssues s = 0 \<and> highIssues s = 0 \<and> mediumIssues s = 0 \<and>
           s_recommendations s = 0 \<and> estimatedFixTime s = Minutes 0 \<and>
           priorityActions s = [] \<and> quickWins s = 0"
  using assms
  by (simp add: analyzePage_def try_block_def calculateSummary_def Let_def estimateFixTime_def
      getPriorityActions_def)

theorem unknown_tier_runs_nothing_witness:
  "goto demo_env = None \<and> screenshot demo_env = Inr ''screenshots/shot.png'' \<and>
   ''monitor'' \<noteq> ''quick'' \<and> ''monitor'' \<noteq> ''deep'' \<and> ''monitor'' \<noteq> ''element'' \<and>
   ''monitor'' \<noteq> ''full'' \<and>
   (\<exists>r s. analyzePage demo_env ''http://localhost:3000'' ''monitor''
             = (Returns r, [NewPage, PageClose]) \<and>
           error r = None \<and> issues r = [] \<and> recommendations r = [] \<and> summary r = Some s \<and>
           totalIssues s = 0)"
proof -
  have g: "goto demo_env = None" and p: "screenshot demo_env = Inr ''screenshots/shot.png''"
    by (simp_all add: demo_env_def)
  have t: "''monitor'' \<noteq> ''quick''" "''monitor'' \<noteq> ''deep''" "''monitor'' \<noteq> ''element''"
    "''monitor'' \<noteq> ''full''" by simp_all
  from unknown_tier_runs_nothing[OF g p t, of "''http://localhost:3000''"]
  show ?thesis using g p by auto
qed

end
